theory Spec2Isabelle
  imports Complex_Main "HOL-Library.Multiset"
begin

section \<open>The result tabulator of the strain-design notebook\<close>

text \<open>
  The notebook \<^verbatim>\<open>notebooks/2_strain_design.ipynb\<close> calls two libraries (ReFramed for flux
  balance analysis, MEWpy for the evolutionary search) and has one piece of logic of its
  own, the cells that turn the population returned by the search into a sorted table:
  \<^verbatim>\<open>
  get_list = lambda x: [r_id[2:] for r_id in x.values]
  table = [[get_list(x), len(get_list(x)), x.fitness[0], x.fitness[1]] for x in solutions]
  df = pd.DataFrame(table, columns=["knockouts", "total", "rate", "BPCY"])
  df.sort_values("total")
  \<close>
  This theory embeds these cells.
\<close>

subsection \<open>Data\<close>

text \<open>
  A solution of the search as the cell reads it: \<^verbatim>\<open>x.values\<close>, iterated by the comprehension
  (the identifiers in iteration order), and \<^verbatim>\<open>x.fitness\<close>, indexed at 0 and 1. The field
  \<^verbatim>\<open>values\<close> is named \<open>values_attr\<close> here, \<open>values\<close> being a keyword. The fitness scalars
  are only copied, never computed with, so their type is a parameter.
\<close>

record 'f solution =
  values_attr :: "string list"
  fitness :: "'f list"

text \<open>One row of the table, with the column names the data frame gives it.\<close>

record 'f row =
  knockouts :: "string list"
  total :: nat
  rate :: 'f
  BPCY :: 'f

datatype error = IndexError

subsection \<open>Python primitives used by the cell\<close>

text \<open>
  \<^verbatim>\<open>s[k:]\<close> for a literal \<open>k \<ge> 0\<close>: the elements from position \<open>k\<close> on; a start beyond the
  end is clamped to the end, so the slice never raises.
\<close>

fun slice_from :: "nat \<Rightarrow> 'a list \<Rightarrow> 'a list" where
  "slice_from 0 s = s"
| "slice_from (Suc k) [] = []"
| "slice_from (Suc k) (c # s) = slice_from k s"

text \<open>\<^verbatim>\<open>xs[i]\<close> for a literal \<open>i \<ge> 0\<close>: raises IndexError when \<open>i\<close> is not below the length.\<close>

definition index :: "'a list \<Rightarrow> nat \<Rightarrow> error + 'a" where
  "index xs i = (if i < length xs then Inr (xs ! i) else Inl IndexError)"

subsection \<open>The cell\<close>

text \<open>\<^verbatim>\<open>get_list = lambda x: [r_id[2:] for r_id in x.values]\<close>\<close>

definition get_list :: "'f solution \<Rightarrow> string list" where
  "get_list x = map (\<lambda>r_id. slice_from 2 r_id) (values_attr x)"

text \<open>
  The list display \<^verbatim>\<open>[get_list(x), len(get_list(x)), x.fitness[0], x.fitness[1]]\<close>,
  evaluated left to right: the two slices cannot raise, the two index reads can.
\<close>

definition table_row :: "'f solution \<Rightarrow> error + 'f row" where
  "table_row x =
     (let ks = get_list x; n = length (get_list x) in
      case index (fitness x) 0 of
        Inl e \<Rightarrow> Inl e
      | Inr f0 \<Rightarrow>
          (case index (fitness x) 1 of
             Inl e \<Rightarrow> Inl e
           | Inr f1 \<Rightarrow> Inr \<lparr>knockouts = ks, total = n, rate = f0, BPCY = f1\<rparr>))"

text \<open>
  \<^verbatim>\<open>table = [... for x in solutions]\<close>: the rows in the order of the population; the first
  row that raises ends the comprehension with its exception.
\<close>

fun table :: "'f solution list \<Rightarrow> error + 'f row list" where
  "table [] = Inr []"
| "table (x # solutions) =
     (case table_row x of
        Inl e \<Rightarrow> Inl e
      | Inr r \<Rightarrow> (case table solutions of Inl e \<Rightarrow> Inl e | Inr rs \<Rightarrow> Inr (r # rs)))"

subsection \<open>The data frame and its sort\<close>


text \<open>
  \<^verbatim>\<open>df.sort_values(col)\<close> returns a new frame holding every row of \<open>df\<close> once, with the
  keys of the column ascending from top to bottom; \<open>df\<close> itself is unchanged. Pandas'
  default algorithm (quicksort) does not fix the order of rows with equal keys, so the
  call is a relation: \<open>sort_values column idx\<close> says that \<open>idx\<close>, the row labels of the
  result from top to bottom, is a possible outcome for a frame whose key column is
  \<open>column\<close>.
\<close>

definition sort_values :: "'k::linorder list \<Rightarrow> nat list \<Rightarrow> bool" where
  "sort_values column idx \<longleftrightarrow>
     mset idx = mset [0..<length column] \<and> sorted (map (\<lambda>i. column ! i) idx)"



section \<open>Properties\<close>

subsection \<open>Slices and index reads\<close>

lemma slice_from_drop: "slice_from k s = drop k s"
  by (induction k s rule: slice_from.induct) simp_all

lemma slice_from_two_chars: "slice_from 2 (a # b # s) = s"
  by (simp add: slice_from_drop)

lemma slice_from_short: "length s \<le> k \<Longrightarrow> slice_from k s = []"
  by (simp add: slice_from_drop)

lemma length_slice_from: "length (slice_from k s) = length s - k"
  by (simp add: slice_from_drop)

lemma index_Inr_iff: "(\<exists>v. index xs i = Inr v) \<longleftrightarrow> i < length xs"
  by (simp add: index_def)

subsection \<open>Rows\<close>

lemma length_get_list: "length (get_list x) = length (values_attr x)"
  by (simp add: get_list_def)

lemma get_list_nth:
  "j < length (values_attr x) \<Longrightarrow> get_list x ! j = drop 2 (values_attr x ! j)"
  by (simp add: get_list_def slice_from_drop)

lemma table_row_Inr:
  "2 \<le> length (fitness x) \<Longrightarrow>
   table_row x = Inr \<lparr>knockouts = get_list x, total = length (values_attr x),
                      rate = fitness x ! 0, BPCY = fitness x ! 1\<rparr>"
  by (cases "fitness x") (auto simp: table_row_def index_def length_get_list)

lemma table_row_Inl: "length (fitness x) < 2 \<Longrightarrow> table_row x = Inl IndexError"
  by (auto simp: table_row_def index_def Let_def)

lemma table_row_total: "table_row x = Inr r \<Longrightarrow> total r = length (values_attr x)"
  by (cases "2 \<le> length (fitness x)") (auto simp: table_row_Inr table_row_Inl not_le)

lemma table_row_knockouts: "table_row x = Inr r \<Longrightarrow> knockouts r = get_list x"
  by (cases "2 \<le> length (fitness x)") (auto simp: table_row_Inr table_row_Inl not_le)

subsection \<open>Tables\<close>


lemma table_totals:
  "table solutions = Inr df \<Longrightarrow> map total df = map (\<lambda>x. length (values_attr x)) solutions"
proof (induction solutions arbitrary: df)
  case Nil
  then show ?case by simp
next
  case (Cons x solutions)
  then show ?case
    by (auto split: sum.splits dest: table_row_total)
qed

lemma table_length: "table solutions = Inr df \<Longrightarrow> length df = length solutions"
  using table_totals [of solutions df] by (metis length_map)

lemma table_short_fitness:
  "\<exists>x \<in> set solutions. length (fitness x) < 2 \<Longrightarrow> table solutions = Inl IndexError"
proof (induction solutions)
  case Nil
  then show ?case by simp
next
  case (Cons x solutions)
  show ?case
  proof (cases "length (fitness x) < 2")
    case True
    then show ?thesis by (simp add: table_row_Inl)
  next
    case False
    with Cons.prems have "\<exists>x \<in> set solutions. length (fitness x) < 2" by auto
    then have "table solutions = Inl IndexError" by (rule Cons.IH)
    moreover from False have "2 \<le> length (fitness x)" by simp
    ultimately show ?thesis by (simp add: table_row_Inr)
  qed
qed

subsection \<open>Outcomes of the sort\<close>


text \<open>The same relation in a form that evaluates on concrete lists.\<close>

lemma sort_values_iff:
  "sort_values column idx \<longleftrightarrow>
     sort idx = [0..<length column] \<and> sorted (map (\<lambda>i. column ! i) idx)"
proof -
  have "mset idx = mset [0..<length column] \<longleftrightarrow> sort idx = [0..<length column]"
  proof
    assume "mset idx = mset [0..<length column]"
    then have "mset [0..<length column] = mset idx" by simp
    then show "sort idx = [0..<length column]"
      by (rule properties_for_sort) simp
  next
    assume "sort idx = [0..<length column]"
    then have "mset (sort idx) = mset [0..<length column]" by simp
    then show "mset idx = mset [0..<length column]" by simp
  qed
  then show ?thesis by (simp add: sort_values_def)
qed

text \<open>Rows with equal keys may come out in either order; every label appears once.\<close>

lemma sort_values_ties:
  "sort_values [2, 1, 1 :: nat] [1, 2, 0] \<and> sort_values [2, 1, 1 :: nat] [2, 1, 0]
   \<and> \<not> sort_values [2, 1, 1 :: nat] [0, 1, 2] \<and> \<not> sort_values [2, 1, 1 :: nat] [1, 1, 0]"
  by (simp add: sort_values_iff upt_rec)



subsection \<open>Sorting the table by the number of knockouts\<close>



subsection \<open>What a row displays\<close>

text \<open>
  Claim C10. For every solution, each displayed knockout entry is the identifier without
  its first two characters, whatever those characters are (nothing compares them with a
  prefix such as \<^verbatim>\<open>G_\<close> or \<^verbatim>\<open>R_\<close>); an identifier of at most two characters is displayed
  as the empty string; and in the row built from the solution the column \<open>knockouts\<close> is
  that list and the column \<open>total\<close> is the number of identifiers of the solution.
\<close>

theorem get_list_strips_two_chars:
  "length (get_list x) = length (values_attr x) \<and>
   (\<forall>j < length (values_attr x).
      get_list x ! j = drop 2 (values_attr x ! j) \<and>
      (\<forall>a b s. values_attr x ! j = a # b # s \<longrightarrow> get_list x ! j = s) \<and>
      (length (values_attr x ! j) \<le> 2 \<longrightarrow> get_list x ! j = [])) \<and>
   (\<forall>r. table_row x = Inr r \<longrightarrow>
      knockouts r = get_list x \<and> total r = length (values_attr x))"
  by (simp add: length_get_list get_list_nth table_row_total table_row_knockouts)

theorem get_list_strips_two_chars_witness:
  "get_list \<lparr>values_attr = [''G_b0008'', ''PFL'', ''R_'', ''b'', ''''], fitness = [8.5, 0.25 :: real]\<rparr>
     = [''b0008'', ''L'', '''', '''', '''']
   \<and> (\<exists>r. table_row \<lparr>values_attr = [''G_b0008'', ''PFL'', ''R_'', ''b'', ''''],
                       fitness = [8.5, 0.25 :: real]\<rparr> = Inr r
          \<and> knockouts r = [''b0008'', ''L'', '''', '''', ''''] \<and> total r = 5)"
proof -
  let ?x = "\<lparr>values_attr = [''G_b0008'', ''PFL'', ''R_'', ''b'', ''''], fitness = [8.5, 0.25 :: real]\<rparr>"
  note c10 = get_list_strips_two_chars [of ?x]
  from c10 have n: "length (get_list ?x) = 5"
    and e: "\<forall>j < 5. get_list ?x ! j = drop 2 (values_attr ?x ! j)"
    by simp_all
  have "get_list ?x = map (\<lambda>j. get_list ?x ! j) [0..<5]"
    using n by (metis map_nth)
  also have "\<dots> = map (\<lambda>j. drop 2 (values_attr ?x ! j)) [0..<5]"
    using e by simp
  also have "\<dots> = [''b0008'', ''L'', '''', '''', '''']"
    by (simp add: upt_rec)
  finally have g: "get_list ?x = [''b0008'', ''L'', '''', '''', '''']" .
  have "2 \<le> length (fitness ?x)" by simp
  then obtain r where r: "table_row ?x = Inr r"
    using table_row_Inr by blast
  with c10 have "knockouts r = get_list ?x \<and> total r = length (values_attr ?x)"
    by blast
  with g r show ?thesis by simp
qed

end
